theory Spec2Isabelle
  imports Main
begin

section \<open>Values exchanged with the server\<close>

text \<open>
  The client in \<^verbatim>\<open>src/app.js\<close> is one class, \<^verbatim>\<open>ChatWithMeApp\<close>. The payloads it
  receives are JavaScript objects; the model gives each the fields the code reads.
  A \<^typ>\<open>string\<close> is a sequence of code units below 256.
\<close>

record user =
  user_id :: string
  username :: string
  avatar_url :: string
  chat_side :: string

record contact =
  contact_user :: user
  summary :: string

text \<open>
  \<^verbatim>\<open>recipient\<close> is carried by a private message (\<^verbatim>\<open>sendPrivateMessage\<close> posts a
  \<^verbatim>\<open>recipient_id\<close>); no function of the client reads it.
\<close>

record message =
  sender :: user
  recipient :: "user option"
  content :: string
  timestamp :: string
  is_public :: bool

record invitation =
  invitation_id :: string
  from_user :: user
  activity :: string
  invitation_message :: "string option"

record invitation_response =
  accepted :: bool
  responder :: user
  response_activity :: string

text \<open>The parsed envelope \<^verbatim>\<open>{type, ...}\<close> of a push frame, by the value of \<^verbatim>\<open>data.type\<close>.\<close>

datatype envelope =
    New_message message
  | Activity_invitation invitation
  | Invitation_response invitation_response
  | Other_type string

datatype js_error = SyntaxError | TypeError | FetchFailed

text \<open>
  A text handed to \<^verbatim>\<open>JSON.parse\<close>, by what the parser does on it: \<open>NotJSON t\<close> is a
  text \<open>t\<close> that is not JSON (the parser throws \<^verbatim>\<open>SyntaxError\<close>), \<open>JSONText v\<close> is
  the serialisation of the value \<open>v\<close>.
\<close>

datatype 'a json_text = NotJSON string | JSONText 'a

fun JSON_parse :: "'a json_text \<Rightarrow> js_error + 'a" where
  "JSON_parse (NotJSON t) = Inl SyntaxError"
| "JSON_parse (JSONText v) = Inr v"

text \<open>\<^verbatim>\<open>JSON.stringify\<close> of a user, or of \<^verbatim>\<open>undefined\<close> (stored as that word).\<close>

fun JSON_stringify :: "user option \<Rightarrow> user json_text" where
  "JSON_stringify (Some u) = JSONText u"
| "JSON_stringify None = NotJSON ''undefined''"

text \<open>Truthiness of a text: only the empty string is falsy.\<close>

fun truthy_text :: "'a json_text \<Rightarrow> bool" where
  "truthy_text (NotJSON t) = (t \<noteq> [])"
| "truthy_text (JSONText v) = True"

fun truthy :: "string option \<Rightarrow> bool" where
  "truthy None = False"
| "truthy (Some t) = (t \<noteq> [])"

section \<open>Strings: \<^verbatim>\<open>trim\<close> and \<^verbatim>\<open>encodeURIComponent\<close>\<close>

definition white_space :: "char \<Rightarrow> bool" where
  "white_space c =
     (c \<in> set [CHR 0x09, CHR 0x0A, CHR 0x0B, CHR 0x0C, CHR 0x0D, CHR 0x20, CHR 0xA0])"

definition trim :: "string \<Rightarrow> string" where
  "trim t = rev (dropWhile white_space (rev (dropWhile white_space t)))"

definition unreserved :: "char \<Rightarrow> bool" where
  "unreserved c =
     (c \<in> set (''ABCDEFGHIJKLMNOPQRSTUVWXYZ'' @ ''abcdefghijklmnopqrstuvwxyz'' @
               ''0123456789'' @ [CHR ''-'', CHR ''_'', CHR ''.'', CHR ''!'', CHR ''~'',
               CHR ''*'', CHR 0x27, CHR ''('', CHR '')'']))"

definition hex_digit :: "nat \<Rightarrow> char" where
  "hex_digit n = ''0123456789ABCDEF'' ! (n mod 16)"

definition percent :: "nat \<Rightarrow> string" where
  "percent b = [CHR ''%'', hex_digit (b div 16), hex_digit b]"

text \<open>A code unit from 128 on is two octets in UTF-8.\<close>

definition encode_unit :: "char \<Rightarrow> string" where
  "encode_unit c =
     (let n = (of_char c :: nat) in
      if unreserved c then [c]
      else if n < 128 then percent n
      else percent (192 + n div 64) @ percent (128 + n mod 64))"

definition encodeURIComponent :: "string \<Rightarrow> string" where
  "encodeURIComponent t = concat (map encode_unit t)"

section \<open>The page: application object, document and environment\<close>

text \<open>The fields set by the constructor of \<^verbatim>\<open>ChatWithMeApp\<close>; \<^verbatim>\<open>null\<close> is \<open>None\<close>.\<close>

record ChatWithMeApp =
  currentUser :: "user option"
  websocket :: "string option"
  contacts :: "contact list"
  currentPrivateChatUser :: "user option"
  selectedActivity :: "string option"
  invitationTargetUser :: "user option"
  currentInvitation :: "invitation option"

text \<open>What \<^verbatim>\<open>createMessageElement\<close> builds; the time shown is the platform's rendering of
  the timestamp, kept here as the timestamp.\<close>

record message_element =
  className :: string
  avatar_src :: string
  avatar_alt :: string
  message_sender :: string
  message_time :: string
  message_text :: string

datatype node = History_placeholder | Message_node message_element

record invitation_details =
  invitation_avatar_src :: string
  invitation_avatar_alt :: string
  invitation_from :: string
  invitation_activity :: string
  invitation_quote :: "string option"

text \<open>The elements of the document that the modelled functions read or write, by their ids.\<close>

record document =
  login_modal_hidden :: bool
  main_interface_hidden :: bool
  current_user_avatar :: string
  current_user_name :: string
  current_chat_side :: string
  current_chat_side_class :: string
  chatwithme_window_active :: bool
  towhomilovethemost_window_active :: bool
  chatwithme_messages :: "message_element list"
  towhomilovethemost_messages :: "message_element list"
  private_messages :: "node list"
  username_input :: string
  chatwithme_input :: string
  towhomilovethemost_input :: string
  private_message_input :: string
  invitation_message_input :: string
  private_chat_title :: string
  private_chat_modal_hidden :: bool
  invite_target_user :: string
  activity_selection_modal_hidden :: bool
  activity_invite_btn_selected :: "string option"
  invitation_content :: "invitation_details option"
  invitation_modal_hidden :: bool
  notifications :: "(nat \<times> string) list"
  chatwithme_contacts :: "contact list"
  towhomilovethemost_contacts :: "contact list"

datatype request_body = No_body | Form_data "(string \<times> string) list" | Url_encoded string

record request =
  url :: string
  http_method :: string
  body :: request_body

datatype timer = Reconnect | Remove_notification nat

datatype log_entry = Log string | Error string js_error | Uncaught js_error

text \<open>
  The page: the application object, the document, and the environment the code acts on:
  \<^verbatim>\<open>localStorage\<close>, \<^verbatim>\<open>window.location\<close>, the sockets constructed (by URL), the timers
  pending from \<^verbatim>\<open>setTimeout\<close> (delay in ms), the requests issued by \<^verbatim>\<open>fetch\<close>, the
  \<^verbatim>\<open>alert\<close> prompts shown and the console.
\<close>

record page =
  app :: ChatWithMeApp
  doc :: document
  localStorage :: "string \<rightharpoonup> user json_text"
  location_protocol :: string
  location_host :: string
  listeners :: bool
  sockets :: "string list"
  timers :: "(nat \<times> timer) list"
  requests :: "request list"
  alerts :: "string list"
  console :: "log_entry list"
  next_node :: nat

text \<open>A function returns, or throws with the page as it is at the throw.\<close>

datatype completion = Return page | Throw js_error page

text \<open>An \<^verbatim>\<open>async\<close> function runs to its end, or to its first \<^verbatim>\<open>await\<close> of a request.\<close>

datatype suspension = Completed page | Suspended page

text \<open>The settlement of a \<^verbatim>\<open>fetch\<close>: rejected, or a response with its status class and body.\<close>

record 'a response =
  ok :: bool
  json_body :: "'a json_text"

datatype 'a settlement = Rejected | Fulfilled "'a response"

text \<open>An exception nobody catches is reported on the console; the page stays as it is.\<close>

fun report :: "completion \<Rightarrow> page" where
  "report (Return s) = s"
| "report (Throw e s) = s\<lparr>console := console s @ [Uncaught e]\<rparr>"

fun page_of :: "suspension \<Rightarrow> page" where
  "page_of (Completed s) = s"
| "page_of (Suspended s) = s"

definition fetch :: "string \<Rightarrow> string \<Rightarrow> request_body \<Rightarrow> page \<Rightarrow> page" where
  "fetch u m b s = s\<lparr>requests := requests s @ [\<lparr>url = u, http_method = m, body = b\<rparr>]\<rparr>"

definition alert :: "string \<Rightarrow> page \<Rightarrow> page" where
  "alert t s = s\<lparr>alerts := alerts s @ [t]\<rparr>"

definition console_log :: "string \<Rightarrow> page \<Rightarrow> page" where
  "console_log t s = s\<lparr>console := console s @ [Log t]\<rparr>"

definition console_error :: "string \<Rightarrow> js_error \<Rightarrow> page \<Rightarrow> page" where
  "console_error t e s = s\<lparr>console := console s @ [Error t e]\<rparr>"

section \<open>Session start: \<^verbatim>\<open>init\<close>, login, the main interface\<close>

definition showLoginModal :: "page \<Rightarrow> page" where
  "showLoginModal s =
     s\<lparr>doc := (doc s)\<lparr>login_modal_hidden := False, main_interface_hidden := True\<rparr>\<rparr>"

definition setupEventListeners :: "page \<Rightarrow> page" where
  "setupEventListeners s = s\<lparr>listeners := True\<rparr>"

definition wsUrl :: "page \<Rightarrow> user \<Rightarrow> string" where
  "wsUrl s u =
     (if location_protocol s = ''https:'' then ''wss:'' else ''ws:'') @ ''//'' @
     location_host s @ ''/ws/'' @ user_id u"

text \<open>\<^verbatim>\<open>this.currentUser.id\<close> on \<^verbatim>\<open>null\<close> throws before the socket is constructed.\<close>

definition connectWebSocket :: "page \<Rightarrow> completion" where
  "connectWebSocket s =
     (case currentUser (app s) of
        None \<Rightarrow> Throw TypeError s
      | Some u \<Rightarrow>
          Return (s\<lparr>app := (app s)\<lparr>websocket := Some (wsUrl s u)\<rparr>,
                    sockets := sockets s @ [wsUrl s u]\<rparr>))"

definition loadContacts :: "page \<Rightarrow> suspension" where
  "loadContacts s =
     (case currentUser (app s) of
        None \<Rightarrow> Completed (console_error ''Error loading contacts:'' TypeError s)
      | Some u \<Rightarrow>
          Suspended (fetch (''/users/'' @ user_id u @ ''/contacts'') ''GET'' No_body s))"

definition renderContacts :: "page \<Rightarrow> page" where
  "renderContacts s =
     s\<lparr>doc := (doc s)\<lparr>chatwithme_contacts := contacts (app s),
                        towhomilovethemost_contacts := contacts (app s)\<rparr>\<rparr>"

definition loadContacts_settled :: "contact list settlement \<Rightarrow> page \<Rightarrow> page" where
  "loadContacts_settled outcome s =
     (case outcome of
        Rejected \<Rightarrow> console_error ''Error loading contacts:'' FetchFailed s
      | Fulfilled r \<Rightarrow>
          (case JSON_parse (json_body r) of
             Inl e \<Rightarrow> console_error ''Error loading contacts:'' e s
           | Inr cs \<Rightarrow> renderContacts (s\<lparr>app := (app s)\<lparr>contacts := cs\<rparr>\<rparr>)))"

text \<open>
  \<^verbatim>\<open>showMainInterface\<close> up to its first \<^verbatim>\<open>await\<close>, which is the request of
  \<^verbatim>\<open>loadContacts\<close>. The class changes are made before \<^verbatim>\<open>this.currentUser\<close> is read.
\<close>

definition showMainInterface :: "page \<Rightarrow> completion" where
  "showMainInterface s =
     (let s1 = s\<lparr>doc := (doc s)\<lparr>login_modal_hidden := True,
                                  main_interface_hidden := False\<rparr>\<rparr>
      in case currentUser (app s1) of
           None \<Rightarrow> Throw TypeError s1
         | Some u \<Rightarrow>
             (let s2 = s1\<lparr>doc := (doc s1)\<lparr>current_user_avatar := avatar_url u,
                                            current_user_name := username u,
                                            current_chat_side := chat_side u,
                                            current_chat_side_class :=
                                              ''chat-side-badge '' @ chat_side u\<rparr>\<rparr>
              in case connectWebSocket s2 of
                   Throw e s3 \<Rightarrow> Throw e s3
                 | Return s3 \<Rightarrow> Return (page_of (loadContacts s3))))"

definition updateChatWindowVisibility :: "page \<Rightarrow> completion" where
  "updateChatWindowVisibility s =
     (case currentUser (app s) of
        None \<Rightarrow> Throw TypeError s
      | Some u \<Rightarrow>
          if chat_side u = ''chatwithme''
          then Return (s\<lparr>doc := (doc s)\<lparr>chatwithme_window_active := True,
                                          towhomilovethemost_window_active := False\<rparr>\<rparr>)
          else Return (s\<lparr>doc := (doc s)\<lparr>chatwithme_window_active := False,
                                          towhomilovethemost_window_active := True\<rparr>\<rparr>))"

text \<open>
  \<^verbatim>\<open>init\<close>: the call of the asynchronous \<^verbatim>\<open>showMainInterface\<close> is not awaited, so an
  exception in it is reported and \<^verbatim>\<open>init\<close> goes on; \<^verbatim>\<open>JSON.parse\<close> is in \<^verbatim>\<open>init\<close>
  itself.
\<close>

definition init :: "page \<Rightarrow> completion" where
  "init s =
     (case localStorage s ''chatwithme_user'' of
        None \<Rightarrow> Return (setupEventListeners (showLoginModal s))
      | Some savedUser \<Rightarrow>
          if truthy_text savedUser then
            (case JSON_parse savedUser of
               Inl e \<Rightarrow> Throw e s
             | Inr u \<Rightarrow>
                 Return (setupEventListeners
                   (report (showMainInterface (s\<lparr>app := (app s)\<lparr>currentUser := Some u\<rparr>\<rparr>)))))
          else Return (setupEventListeners (showLoginModal s)))"

record login_result =
  result_user :: "user option"
  result_detail :: "string option"
  result_message :: "string option"

definition handleLogin :: "page \<Rightarrow> suspension" where
  "handleLogin s =
     (let username = trim (username_input (doc s))
      in if username = [] then Completed s
         else Suspended (fetch ''/users/create'' ''POST''
                           (Form_data [(''username'', username)]) s))"

text \<open>\<^verbatim>\<open>a || b\<close> on a text that may be missing: a missing or empty \<open>a\<close> gives \<open>b\<close>.\<close>

fun or_else :: "string option \<Rightarrow> string \<Rightarrow> string" where
  "or_else None b = b"
| "or_else (Some t) b = (if t = [] then b else t)"

definition errorMessage :: "login_result \<Rightarrow> string" where
  "errorMessage result =
     or_else (result_detail result)
       (or_else (result_message result) ''Unknown error occurred'')"

definition handleLogin_settled :: "login_result settlement \<Rightarrow> page \<Rightarrow> page" where
  "handleLogin_settled outcome s =
     (case outcome of
        Rejected \<Rightarrow>
          alert ''Failed to connect to server'' (console_error ''Login error:'' FetchFailed s)
      | Fulfilled r \<Rightarrow>
          (case JSON_parse (json_body r) of
             Inl e \<Rightarrow> alert ''Failed to connect to server'' (console_error ''Login error:'' e s)
           | Inr result \<Rightarrow>
               if ok r then
                 (let s1 = s\<lparr>app := (app s)\<lparr>currentUser := result_user result\<rparr>\<rparr>;
                      s2 = s1\<lparr>localStorage := (localStorage s1)
                                (''chatwithme_user'' \<mapsto> JSON_stringify (currentUser (app s1)))\<rparr>
                  in report (showMainInterface s2))
               else alert (''Failed to create user: '' @ errorMessage result) s))"

section \<open>The push channel\<close>

definition createMessageElement :: "message \<Rightarrow> bool \<Rightarrow> message_element" where
  "createMessageElement m isFromCurrentUser =
     \<lparr>className = ''message '' @ (if isFromCurrentUser then ''sent'' else ''received''),
      avatar_src = avatar_url (sender m),
      avatar_alt = username (sender m),
      message_sender = username (sender m),
      message_time = timestamp m,
      message_text = content m\<rparr>"

definition addMessageToChat :: "message \<Rightarrow> string \<Rightarrow> page \<Rightarrow> completion" where
  "addMessageToChat m type s =
     (case currentUser (app s) of
        None \<Rightarrow> Throw TypeError s
      | Some u \<Rightarrow>
          (let isFromCurrentUser = (user_id (sender m) = user_id u);
               messageElement = createMessageElement m isFromCurrentUser
           in if type = ''public''
              then Return (s\<lparr>doc := (doc s)
                     \<lparr>chatwithme_messages := chatwithme_messages (doc s) @ [messageElement],
                      towhomilovethemost_messages :=
                        towhomilovethemost_messages (doc s) @ [messageElement]\<rparr>\<rparr>)
              else Return (s\<lparr>doc := (doc s)
                     \<lparr>private_messages :=
                        private_messages (doc s) @ [Message_node messageElement]\<rparr>\<rparr>)))"

definition handleNewMessage :: "message \<Rightarrow> page \<Rightarrow> completion" where
  "handleNewMessage m s =
     (if is_public m then addMessageToChat m ''public'' s
      else addMessageToChat m ''private'' s)"

definition handleActivityInvitation :: "invitation \<Rightarrow> page \<Rightarrow> page" where
  "handleActivityInvitation invitation s =
     s\<lparr>app := (app s)\<lparr>currentInvitation := Some invitation\<rparr>,
       doc := (doc s)
         \<lparr>invitation_content := Some
            \<lparr>invitation_avatar_src = avatar_url (from_user invitation),
             invitation_avatar_alt = username (from_user invitation),
             invitation_from = username (from_user invitation),
             invitation_activity = activity invitation,
             invitation_quote =
               (if truthy (invitation_message invitation) then invitation_message invitation else None)\<rparr>,
          invitation_modal_hidden := False\<rparr>\<rparr>"

definition showNotification :: "string \<Rightarrow> page \<Rightarrow> page" where
  "showNotification t s =
     s\<lparr>doc := (doc s)\<lparr>notifications := notifications (doc s) @ [(next_node s, t)]\<rparr>,
       timers := timers s @ [(5000, Remove_notification (next_node s))],
       next_node := Suc (next_node s)\<rparr>"

definition handleInvitationResponse :: "invitation_response \<Rightarrow> page \<Rightarrow> page" where
  "handleInvitationResponse r s =
     showNotification
       (if accepted r
        then username (responder r) @ '' accepted your '' @ response_activity r @
             '' invitation!''
        else username (responder r) @ '' declined your '' @ response_activity r @
             '' invitation.'') s"

definition handleWebSocketMessage :: "envelope \<Rightarrow> page \<Rightarrow> completion" where
  "handleWebSocketMessage data s =
     (case data of
        New_message m \<Rightarrow> handleNewMessage m s
      | Activity_invitation invitation \<Rightarrow> Return (handleActivityInvitation invitation s)
      | Invitation_response r \<Rightarrow> Return (handleInvitationResponse r s)
      | Other_type t \<Rightarrow> Return s)"

definition onopen :: "page \<Rightarrow> page" where
  "onopen s = console_log ''WebSocket connected'' s"

text \<open>\<^verbatim>\<open>onmessage\<close> has no handler around \<^verbatim>\<open>JSON.parse\<close>: its exception leaves the callback.\<close>

definition onmessage :: "envelope json_text \<Rightarrow> page \<Rightarrow> completion" where
  "onmessage event_data s =
     (case JSON_parse event_data of
        Inl e \<Rightarrow> Throw e s
      | Inr data \<Rightarrow> handleWebSocketMessage data s)"

definition onclose :: "page \<Rightarrow> page" where
  "onclose s =
     (console_log ''WebSocket disconnected, attempting to reconnect...'' s)
       \<lparr>timers := timers s @ [(3000, Reconnect)]\<rparr>"

definition onerror :: "page \<Rightarrow> page" where
  "onerror s = console_error ''WebSocket error:'' FetchFailed s"

text \<open>The event loop runs a callback for a frame and reports what the callback throws.\<close>

definition deliver :: "envelope json_text \<Rightarrow> page \<Rightarrow> page" where
  "deliver event_data s = report (onmessage event_data s)"

text \<open>A pending timer fires: it leaves the list and its callback runs.\<close>

definition run_timer :: "timer \<Rightarrow> page \<Rightarrow> completion" where
  "run_timer t s =
     (case t of
        Reconnect \<Rightarrow> connectWebSocket s
      | Remove_notification n \<Rightarrow>
          Return (s\<lparr>doc := (doc s)
            \<lparr>notifications := filter (\<lambda>p. fst p \<noteq> n) (notifications (doc s))\<rparr>\<rparr>))"

definition fire :: "nat \<Rightarrow> page \<Rightarrow> completion" where
  "fire k s =
     (if k < length (timers s)
      then run_timer (snd (timers s ! k)) (s\<lparr>timers := take k (timers s) @ drop (Suc k) (timers s)\<rparr>)
      else Return s)"

text \<open>The channel closes \<open>n\<close> times; each time the timer that \<^verbatim>\<open>onclose\<close> set then fires.\<close>

primrec closes :: "nat \<Rightarrow> page \<Rightarrow> completion" where
  "closes 0 s = Return s"
| "closes (Suc n) s =
     (case closes n s of
        Throw e s' \<Rightarrow> Throw e s'
      | Return s' \<Rightarrow> fire (length (timers s')) (onclose s'))"

section \<open>Public history and private chats\<close>

definition loadPublicMessages :: "page \<Rightarrow> suspension" where
  "loadPublicMessages s = Suspended (fetch ''/messages/public'' ''GET'' No_body s)"

fun forEach_addMessageToChat :: "message list \<Rightarrow> page \<Rightarrow> completion" where
  "forEach_addMessageToChat [] s = Return s"
| "forEach_addMessageToChat (m # ms) s =
     (case addMessageToChat m ''public'' s of
        Throw e s' \<Rightarrow> Throw e s'
      | Return s' \<Rightarrow> forEach_addMessageToChat ms s')"

definition loadPublicMessages_settled :: "message list settlement \<Rightarrow> page \<Rightarrow> page" where
  "loadPublicMessages_settled outcome s =
     (case outcome of
        Rejected \<Rightarrow> console_error ''Error loading messages:'' FetchFailed s
      | Fulfilled r \<Rightarrow>
          (case JSON_parse (json_body r) of
             Inl e \<Rightarrow> console_error ''Error loading messages:'' e s
           | Inr messages \<Rightarrow>
               (case forEach_addMessageToChat messages s of
                  Throw e s' \<Rightarrow> console_error ''Error loading messages:'' e s'
                | Return s' \<Rightarrow> s')))"

datatype room = Chatwithme | Towhomilovethemost

fun input_value :: "room \<Rightarrow> document \<Rightarrow> string" where
  "input_value Chatwithme d = chatwithme_input d"
| "input_value Towhomilovethemost d = towhomilovethemost_input d"

fun clear_input :: "room \<Rightarrow> document \<Rightarrow> document" where
  "clear_input Chatwithme d = d\<lparr>chatwithme_input := []\<rparr>"
| "clear_input Towhomilovethemost d = d\<lparr>towhomilovethemost_input := []\<rparr>"

definition sendPublicMessage :: "room \<Rightarrow> page \<Rightarrow> suspension" where
  "sendPublicMessage chatSide s =
     (let message = trim (input_value chatSide (doc s))
      in if message = [] then Completed s
         else (case currentUser (app s) of
                 None \<Rightarrow> Completed (console_error ''Error sending message:'' TypeError s)
               | Some u \<Rightarrow>
                   Suspended (fetch ''/messages/send'' ''POST''
                     (Url_encoded (''sender_id='' @ user_id u @ ''&content='' @
                        encodeURIComponent message @ ''&is_public=true'')) s)))"

definition sendPublicMessage_settled :: "room \<Rightarrow> 'a settlement \<Rightarrow> page \<Rightarrow> page" where
  "sendPublicMessage_settled chatSide outcome s =
     (case outcome of
        Rejected \<Rightarrow> console_error ''Error sending message:'' FetchFailed s
      | Fulfilled r \<Rightarrow>
          if ok r then s\<lparr>doc := clear_input chatSide (doc s)\<rparr> else s)"

text \<open>The guard \<^verbatim>\<open>!message || !this.currentPrivateChatUser\<close> returns in the first two branches.\<close>

definition sendPrivateMessage :: "page \<Rightarrow> suspension" where
  "sendPrivateMessage s =
     (let message = trim (private_message_input (doc s))
      in if message = [] then Completed s
         else (case currentPrivateChatUser (app s) of
                 None \<Rightarrow> Completed s
               | Some peer \<Rightarrow>
                   (case currentUser (app s) of
                      None \<Rightarrow>
                        Completed
                          (console_error ''Error sending private message:'' TypeError s)
                    | Some u \<Rightarrow>
                        Suspended (fetch ''/messages/send'' ''POST''
                          (Url_encoded (''sender_id='' @ user_id u @ ''&content='' @
                             encodeURIComponent message @ ''&recipient_id='' @
                             user_id peer @ ''&is_public=false'')) s))))"

definition sendPrivateMessage_settled :: "'a settlement \<Rightarrow> page \<Rightarrow> page" where
  "sendPrivateMessage_settled outcome s =
     (case outcome of
        Rejected \<Rightarrow> console_error ''Error sending private message:'' FetchFailed s
      | Fulfilled r \<Rightarrow>
          if ok r then s\<lparr>doc := (doc s)\<lparr>private_message_input := []\<rparr>\<rparr> else s)"

definition loadPrivateMessages :: "string \<Rightarrow> page \<Rightarrow> page" where
  "loadPrivateMessages userId s =
     s\<lparr>doc := (doc s)\<lparr>private_messages := [History_placeholder]\<rparr>\<rparr>"

definition openPrivateChat :: "user \<Rightarrow> page \<Rightarrow> page" where
  "openPrivateChat u s =
     loadPrivateMessages (user_id u)
       (s\<lparr>app := (app s)\<lparr>currentPrivateChatUser := Some u\<rparr>,
          doc := (doc s)\<lparr>private_chat_title := ''Chat with '' @ username u,
                         private_chat_modal_hidden := False\<rparr>\<rparr>)"

definition closePrivateChat :: "page \<Rightarrow> page" where
  "closePrivateChat s =
     s\<lparr>doc := (doc s)\<lparr>private_chat_modal_hidden := True\<rparr>,
       app := (app s)\<lparr>currentPrivateChatUser := None\<rparr>\<rparr>"

definition handleContactClick :: "bool \<Rightarrow> string \<Rightarrow> page \<Rightarrow> page" where
  "handleContactClick on_avatar userId s =
     (if on_avatar then s
      else (case find (\<lambda>c. user_id (contact_user c) = userId) (contacts (app s)) of
              None \<Rightarrow> s
            | Some c \<Rightarrow> openPrivateChat (contact_user c) s))"

section \<open>Invitations\<close>

definition openActivitySelectionModal :: "user \<Rightarrow> page \<Rightarrow> page" where
  "openActivitySelectionModal u s =
     s\<lparr>app := (app s)\<lparr>invitationTargetUser := Some u, selectedActivity := None\<rparr>,
       doc := (doc s)\<lparr>invite_target_user := username u,
                      activity_selection_modal_hidden := False,
                      activity_invite_btn_selected := None\<rparr>\<rparr>"

definition handleAvatarClick :: "string \<Rightarrow> page \<Rightarrow> page" where
  "handleAvatarClick userId s =
     (case find (\<lambda>c. user_id (contact_user c) = userId) (contacts (app s)) of
        None \<Rightarrow> s
      | Some c \<Rightarrow> openActivitySelectionModal (contact_user c) s)"

text \<open>The click handler of an \<^verbatim>\<open>.activity-invite-btn\<close> whose \<^verbatim>\<open>data-activity\<close> is \<open>a\<close>.\<close>

definition activity_invite_btn_click :: "string \<Rightarrow> page \<Rightarrow> page" where
  "activity_invite_btn_click a s =
     s\<lparr>doc := (doc s)\<lparr>activity_invite_btn_selected := Some a\<rparr>,
       app := (app s)\<lparr>selectedActivity := Some a\<rparr>\<rparr>"

definition closeActivitySelectionModal :: "page \<Rightarrow> page" where
  "closeActivitySelectionModal s =
     s\<lparr>doc := (doc s)\<lparr>activity_selection_modal_hidden := True\<rparr>,
       app := (app s)\<lparr>invitationTargetUser := None, selectedActivity := None\<rparr>\<rparr>"

definition invite_body :: "user \<Rightarrow> user \<Rightarrow> string \<Rightarrow> string \<Rightarrow> string" where
  "invite_body u target a message =
     ''from_user_id='' @ user_id u @ ''&to_user_id='' @ user_id target @
     ''&activity_name='' @ a @ ''&message='' @ encodeURIComponent message"

text \<open>
  The guard \<^verbatim>\<open>!this.selectedActivity || !this.invitationTargetUser\<close> prompts and returns
  when the activity is \<^verbatim>\<open>null\<close> or empty, or the target is \<^verbatim>\<open>null\<close>.
\<close>

definition sendActivityInvitation :: "page \<Rightarrow> suspension" where
  "sendActivityInvitation s =
     (case selectedActivity (app s) of
        None \<Rightarrow> Completed (alert ''Please select an activity'' s)
      | Some a \<Rightarrow>
          (case invitationTargetUser (app s) of
             None \<Rightarrow> Completed (alert ''Please select an activity'' s)
           | Some target \<Rightarrow>
               if a = [] then Completed (alert ''Please select an activity'' s)
               else
                 (let message = trim (invitation_message_input (doc s))
                  in case currentUser (app s) of
                       None \<Rightarrow>
                         Completed (alert ''Failed to send invitation''
                           (console_error ''Error sending invitation:'' TypeError s))
                     | Some u \<Rightarrow>
                         Suspended (fetch ''/activities/invite'' ''POST''
                           (Url_encoded (invite_body u target a message)) s))))"

record error_body =
  detail :: "string option"

text \<open>Concatenating \<^verbatim>\<open>undefined\<close> to a string gives the word.\<close>

fun to_string :: "string option \<Rightarrow> string" where
  "to_string None = ''undefined''"
| "to_string (Some t) = t"

definition sendActivityInvitation_settled :: "error_body settlement \<Rightarrow> page \<Rightarrow> page" where
  "sendActivityInvitation_settled outcome s =
     (case outcome of
        Rejected \<Rightarrow>
          alert ''Failed to send invitation''
            (console_error ''Error sending invitation:'' FetchFailed s)
      | Fulfilled r \<Rightarrow>
          if ok r then
            (let s1 = closeActivitySelectionModal (alert ''Invitation sent!'' s)
             in s1\<lparr>doc := (doc s1)\<lparr>invitation_message_input := []\<rparr>\<rparr>)
          else
            (case JSON_parse (json_body r) of
               Inl e \<Rightarrow>
                 alert ''Failed to send invitation''
                   (console_error ''Error sending invitation:'' e s)
             | Inr error \<Rightarrow>
                 alert (''Failed to send invitation: '' @ to_string (detail error)) s))"

definition respondToInvitation :: "bool \<Rightarrow> page \<Rightarrow> suspension" where
  "respondToInvitation accept s =
     (case currentInvitation (app s) of
        None \<Rightarrow> Completed s
      | Some invitation \<Rightarrow>
          (case currentUser (app s) of
             None \<Rightarrow>
               Completed (console_error ''Error responding to invitation:'' TypeError s)
           | Some u \<Rightarrow>
               Suspended (fetch
                 (''/activities/invitations/'' @ invitation_id invitation @ ''/respond'')
                 ''POST''
                 (Url_encoded (''user_id='' @ user_id u @ ''&accept='' @
                    (if accept then ''true'' else ''false''))) s)))"

definition respondToInvitation_settled :: "'a settlement \<Rightarrow> page \<Rightarrow> page" where
  "respondToInvitation_settled outcome s =
     (case outcome of
        Rejected \<Rightarrow> console_error ''Error responding to invitation:'' FetchFailed s
      | Fulfilled r \<Rightarrow>
          if ok r
          then s\<lparr>doc := (doc s)\<lparr>invitation_modal_hidden := True\<rparr>,
                 app := (app s)\<lparr>currentInvitation := None\<rparr>\<rparr>
          else s)"

text \<open>
  An asynchronous function from its call to its end, when the request it awaits settles
  with \<open>outcome\<close> and no other callback runs in between.
\<close>

fun resume :: "suspension \<Rightarrow> (page \<Rightarrow> page) \<Rightarrow> page" where
  "resume (Completed s) k = s"
| "resume (Suspended s) k = k s"

section \<open>A concrete page\<close>

definition alice :: user where
  "alice = \<lparr>user_id = ''u1'', username = ''alice'',
            avatar_url = ''/avatars/alice.png'', chat_side = ''chatwithme''\<rparr>"

definition bob :: user where
  "bob = \<lparr>user_id = ''u2'', username = ''bob'',
          avatar_url = ''/avatars/bob.png'', chat_side = ''towhomilovethemost''\<rparr>"

definition carol :: user where
  "carol = \<lparr>user_id = ''u3'', username = ''carol'',
            avatar_url = ''/avatars/carol.png'', chat_side = ''chatwithme''\<rparr>"

text \<open>The page when the script starts: the constructor's fields, both panels hidden.\<close>

definition empty_document :: document where
  "empty_document =
     \<lparr>login_modal_hidden = True, main_interface_hidden = True,
      current_user_avatar = [], current_user_name = [],
      current_chat_side = [], current_chat_side_class = [],
      chatwithme_window_active = False, towhomilovethemost_window_active = False,
      chatwithme_messages = [], towhomilovethemost_messages = [],
      private_messages = [],
      username_input = [], chatwithme_input = [], towhomilovethemost_input = [],
      private_message_input = [], invitation_message_input = [],
      private_chat_title = [], private_chat_modal_hidden = True,
      invite_target_user = [], activity_selection_modal_hidden = True,
      activity_invite_btn_selected = None,
      invitation_content = None, invitation_modal_hidden = True,
      notifications = [],
      chatwithme_contacts = [], towhomilovethemost_contacts = []\<rparr>"

definition constructed :: ChatWithMeApp where
  "constructed =
     \<lparr>currentUser = None, websocket = None, contacts = [],
      currentPrivateChatUser = None, selectedActivity = None,
      invitationTargetUser = None, currentInvitation = None\<rparr>"

definition fresh_page :: page where
  "fresh_page =
     \<lparr>app = constructed, doc = empty_document, localStorage = Map.empty,
      location_protocol = ''https:'', location_host = ''chat.example'',
      listeners = False, sockets = [], timers = [], requests = [],
      alerts = [], console = [], next_node = 0\<rparr>"

text \<open>Alice's page after a reload with her record in storage.\<close>

definition alice_page :: page where
  "alice_page =
     report (init (fresh_page\<lparr>localStorage := [''chatwithme_user'' \<mapsto> JSONText alice]\<rparr>))"

text \<open>Alice has opened the private chat with Bob; Carol writes to Alice.\<close>

definition bob_chat :: page where
  "bob_chat = openPrivateChat bob alice_page"

definition carol_message :: message where
  "carol_message =
     \<lparr>sender = carol, recipient = Some alice, content = ''hi alice'',
      timestamp = ''2024-01-01T10:00:00'', is_public = False\<rparr>"

definition bob_message :: message where
  "bob_message =
     \<lparr>sender = bob, recipient = None, content = ''hello rooms'',
      timestamp = ''2024-01-01T10:01:00'', is_public = True\<rparr>"

definition chess_invitation :: invitation where
  "chess_invitation =
     \<lparr>invitation_id = ''X'', from_user = bob, activity = ''chess'',
      invitation_message = None\<rparr>"

definition walk_invitation :: invitation where
  "walk_invitation =
     \<lparr>invitation_id = ''Y'', from_user = carol, activity = ''walk'',
      invitation_message = Some ''outside?''\<rparr>"

definition invited_page :: page where
  "invited_page = handleActivityInvitation chess_invitation alice_page"

text \<open>Alice clicked Bob's avatar and chose chess; the message field is empty.\<close>

definition drafting_page :: page where
  "drafting_page =
     activity_invite_btn_click ''chess'' (openActivitySelectionModal bob alice_page)"

text \<open>Only blanks are typed in the room and private inputs.\<close>

definition blank_page :: page where
  "blank_page =
     alice_page\<lparr>doc := (doc alice_page)\<lparr>chatwithme_input := ''   '',
                                         private_message_input := [CHR 0x09, CHR 0x20]\<rparr>\<rparr>"

definition accepted_response :: "unit response" where
  "accepted_response = \<lparr>ok = True, json_body = NotJSON []\<rparr>"

definition refused_response :: "unit response" where
  "refused_response = \<lparr>ok = False, json_body = NotJSON []\<rparr>"

definition invite_ok :: "error_body response" where
  "invite_ok = \<lparr>ok = True, json_body = JSONText \<lparr>detail = None\<rparr>\<rparr>"

definition invite_refused :: "error_body response" where
  "invite_refused =
     \<lparr>ok = False, json_body = JSONText \<lparr>detail = Some ''User not found''\<rparr>\<rparr>"

definition login_ok :: "login_result response" where
  "login_ok =
     \<lparr>ok = True,
      json_body = JSONText \<lparr>result_user = Some alice, result_detail = None,
                             result_message = None\<rparr>\<rparr>"

section \<open>Facts about the concrete pages\<close>

lemma alice_page_app:
  "app alice_page =
     constructed\<lparr>currentUser := Some alice, websocket := Some ''wss://chat.example/ws/u1''\<rparr>"
  by (simp add: alice_page_def init_def fresh_page_def showMainInterface_def
      connectWebSocket_def loadContacts_def setupEventListeners_def fetch_def wsUrl_def
      alice_def Let_def)

lemma alice_page_user: "currentUser (app alice_page) = Some alice"
  by (simp add: alice_page_app)

lemma alice_page_inputs:
  "chatwithme_input (doc alice_page) = [] \<and> private_message_input (doc alice_page) = [] \<and>
   invitation_message_input (doc alice_page) = []"
  by (simp add: alice_page_def init_def fresh_page_def showMainInterface_def
      connectWebSocket_def loadContacts_def setupEventListeners_def fetch_def
      empty_document_def Let_def)

lemma bob_chat_user: "currentUser (app bob_chat) = Some alice"
  by (simp add: bob_chat_def openPrivateChat_def loadPrivateMessages_def alice_page_user)

lemma invited_page_app:
  "currentInvitation (app invited_page) = Some chess_invitation \<and>
   currentUser (app invited_page) = Some alice"
  by (simp add: invited_page_def handleActivityInvitation_def alice_page_user)

lemma drafting_page_app:
  "selectedActivity (app drafting_page) = Some ''chess'' \<and>
   invitationTargetUser (app drafting_page) = Some bob \<and>
   currentUser (app drafting_page) = Some alice \<and>
   invitation_message_input (doc drafting_page) = []"
  by (simp add: drafting_page_def activity_invite_btn_click_def openActivitySelectionModal_def
      alice_page_user alice_page_inputs)

lemma blank_page_facts:
  "trim (input_value Chatwithme (doc blank_page)) = [] \<and>
   trim (private_message_input (doc blank_page)) = [] \<and>
   \<not> truthy (selectedActivity (app blank_page)) \<and>
   currentInvitation (app blank_page) = None"
  by (simp add: blank_page_def trim_def white_space_def alice_page_app constructed_def)

lemma trim_Nil: "trim [] = []"
  by (simp add: trim_def)

lemma encodeURIComponent_Nil: "encodeURIComponent [] = []"
  by (simp add: encodeURIComponent_def)

section \<open>Routing of inbound messages\<close>

text \<open>
  C1, as stated, fails. Alice has the private chat with Bob open (the modal is visible,
  \<^verbatim>\<open>currentPrivateChatUser\<close> is Bob). A private message from Carol to Alice arrives:
  Bob is neither its sender nor its recipient, yet the message is appended to the
  private-chat surface, after the history placeholder.
\<close>

theorem private_message_shown_in_other_chat:
  "currentPrivateChatUser (app bob_chat) = Some bob \<and>
   \<not> private_chat_modal_hidden (doc bob_chat) \<and>
   \<not> is_public carol_message \<and>
   sender carol_message \<noteq> bob \<and> recipient carol_message \<noteq> Some bob \<and>
   user_id (sender carol_message) \<noteq> user_id bob \<and>
   private_messages (doc (deliver (JSONText (New_message carol_message)) bob_chat)) =
     [History_placeholder, Message_node (createMessageElement carol_message False)]"
  by (simp add: bob_chat_def openPrivateChat_def loadPrivateMessages_def alice_page_user
      deliver_def onmessage_def handleWebSocketMessage_def handleNewMessage_def
      addMessageToChat_def carol_message_def carol_def bob_def alice_def Let_def)

text \<open>
  C1, amended: in a session with a current user, every inbound private message is appended
  to the private-chat surface, whatever \<^verbatim>\<open>currentPrivateChatUser\<close> is (unset, the sender,
  the recipient or a third user); nothing else of the page changes, so it reaches neither
  public surface. The element is marked sent or received by comparing the sender's id with
  the current user's.
\<close>

theorem private_message_appended_whatever_peer:
  assumes "currentUser (app s) = Some u" and "\<not> is_public m"
  shows "handleNewMessage m s =
     Return (s\<lparr>doc := (doc s)\<lparr>private_messages := private_messages (doc s) @
        [Message_node (createMessageElement m (user_id (sender m) = user_id u))]\<rparr>\<rparr>)"
  using assms by (simp add: handleNewMessage_def addMessageToChat_def Let_def)

theorem private_message_appended_whatever_peer_witness:
  "currentUser (app bob_chat) = Some alice \<and> \<not> is_public carol_message \<and>
   handleNewMessage carol_message bob_chat =
     Return (bob_chat\<lparr>doc := (doc bob_chat)\<lparr>private_messages :=
        private_messages (doc bob_chat) @
        [Message_node (createMessageElement carol_message
           (user_id (sender carol_message) = user_id alice))]\<rparr>\<rparr>)"
proof -
  have not_public: "\<not> is_public carol_message"
    by (simp add: carol_message_def)
  show ?thesis
    using private_message_appended_whatever_peer [OF bob_chat_user not_public]
      bob_chat_user not_public
    by blast
qed

text \<open>
  C3: in a session with a current user, handling a public message appends its element to
  both public room surfaces, \<^verbatim>\<open>chatwithme\<close> and \<^verbatim>\<open>towhomilovethemost\<close>, and not to the
  private one. Whatever \<^verbatim>\<open>chat_side\<close> the sender has (\<open>a\<close>) and whatever \<^verbatim>\<open>chat_side\<close>
  the current user has (\<open>b\<close>), the element and the two surfaces are the same.
\<close>

theorem public_message_in_both_rooms:
  assumes "currentUser (app s) = Some u" and "is_public m"
  shows "\<exists>s'. handleNewMessage (m\<lparr>sender := (sender m)\<lparr>chat_side := a\<rparr>\<rparr>)
               (s\<lparr>app := (app s)\<lparr>currentUser := Some (u\<lparr>chat_side := b\<rparr>)\<rparr>\<rparr>) = Return s' \<and>
     chatwithme_messages (doc s') = chatwithme_messages (doc s) @
        [createMessageElement m (user_id (sender m) = user_id u)] \<and>
     towhomilovethemost_messages (doc s') = towhomilovethemost_messages (doc s) @
        [createMessageElement m (user_id (sender m) = user_id u)] \<and>
     private_messages (doc s') = private_messages (doc s)"
  using assms
  by (simp add: handleNewMessage_def addMessageToChat_def Let_def createMessageElement_def)

theorem public_message_in_both_rooms_witness:
  "currentUser (app alice_page) = Some alice \<and> is_public bob_message \<and>
   (\<exists>s'. handleNewMessage (bob_message\<lparr>sender := (sender bob_message)\<lparr>chat_side := ''chatwithme''\<rparr>\<rparr>)
               (alice_page\<lparr>app := (app alice_page)
                  \<lparr>currentUser := Some (alice\<lparr>chat_side := ''towhomilovethemost''\<rparr>)\<rparr>\<rparr>) = Return s' \<and>
     chatwithme_messages (doc s') = chatwithme_messages (doc alice_page) @
        [createMessageElement bob_message (user_id (sender bob_message) = user_id alice)] \<and>
     towhomilovethemost_messages (doc s') = towhomilovethemost_messages (doc alice_page) @
        [createMessageElement bob_message (user_id (sender bob_message) = user_id alice)] \<and>
     private_messages (doc s') = private_messages (doc alice_page))"
proof -
  have is_pub: "is_public bob_message"
    by (simp add: bob_message_def)
  show ?thesis
    using public_message_in_both_rooms [OF alice_page_user is_pub,
        of "''chatwithme''" "''towhomilovethemost''"] alice_page_user is_pub
    by blast
qed

section \<open>Malformed frames\<close>

text \<open>
  C2: for a frame whose text is not JSON, \<^verbatim>\<open>JSON.parse\<close> throws in \<^verbatim>\<open>onmessage\<close> before
  anything is changed and \<^verbatim>\<open>handleWebSocketMessage\<close> is not called; the exception leaves
  the callback and is reported on the console, and the page is otherwise unchanged:
  session fields, document, sockets, timers, requests and prompts. The next frame is then
  handled as if the malformed one had not arrived.
\<close>

theorem malformed_frame_dropped:
  "onmessage (NotJSON t) s = Throw SyntaxError s \<and>
   deliver (NotJSON t) s = s\<lparr>console := console s @ [Uncaught SyntaxError]\<rparr> \<and>
   app (deliver f (deliver (NotJSON t) s)) = app (deliver f s) \<and>
   doc (deliver f (deliver (NotJSON t) s)) = doc (deliver f s) \<and>
   timers (deliver f (deliver (NotJSON t) s)) = timers (deliver f s) \<and>
   sockets (deliver f (deliver (NotJSON t) s)) = sockets (deliver f s)"
proof (cases f)
  case (NotJSON x)
  then show ?thesis by (simp add: deliver_def onmessage_def)
next
  case (JSONText e)
  then show ?thesis
    by (cases e)
      (simp_all add: deliver_def onmessage_def handleWebSocketMessage_def handleNewMessage_def
        addMessageToChat_def handleActivityInvitation_def handleInvitationResponse_def
        showNotification_def Let_def split: option.split)
qed

theorem malformed_frame_dropped_witness:
  "onmessage (NotJSON ''{type:'') alice_page = Throw SyntaxError alice_page \<and>
   deliver (NotJSON ''{type:'') alice_page =
     alice_page\<lparr>console := console alice_page @ [Uncaught SyntaxError]\<rparr> \<and>
   app (deliver (JSONText (Activity_invitation chess_invitation))
          (deliver (NotJSON ''{type:'') alice_page)) =
     app (deliver (JSONText (Activity_invitation chess_invitation)) alice_page)"
  using malformed_frame_dropped
    [of "''{type:''" alice_page "JSONText (Activity_invitation chess_invitation)"]
  by blast

section \<open>Invitations received\<close>

text \<open>
  C4: after two inbound \<^verbatim>\<open>activity_invitation\<close> frames in a row, the pending invitation
  is the second one; the page is the one that the second frame alone would have given, so
  nothing of the first offer is kept. \<^verbatim>\<open>currentInvitation\<close> holds at most one invitation.
\<close>

theorem second_invitation_replaces_first:
  "currentInvitation (app (deliver (JSONText (Activity_invitation second))
      (deliver (JSONText (Activity_invitation first)) s))) = Some second \<and>
   deliver (JSONText (Activity_invitation second))
      (deliver (JSONText (Activity_invitation first)) s) =
   deliver (JSONText (Activity_invitation second)) s"
  by (simp add: deliver_def onmessage_def handleWebSocketMessage_def
      handleActivityInvitation_def)

theorem second_invitation_replaces_first_witness:
  "currentInvitation (app (deliver (JSONText (Activity_invitation walk_invitation))
      (deliver (JSONText (Activity_invitation chess_invitation)) alice_page))) =
     Some walk_invitation \<and>
   walk_invitation \<noteq> chess_invitation"
proof -
  have differ: "walk_invitation \<noteq> chess_invitation"
    by (simp add: walk_invitation_def chess_invitation_def)
  show ?thesis
    using second_invitation_replaces_first [of walk_invitation chess_invitation alice_page]
      differ
    by blast
qed

section \<open>Responding to an invitation\<close>

text \<open>
  C5: \<^verbatim>\<open>respondToInvitation(accept)\<close> with a pending invitation, in a session with a
  current user, posts to the invitation's respond path. When the response is successful,
  \<^verbatim>\<open>currentInvitation\<close> becomes \<^verbatim>\<open>null\<close> and the invitation modal is hidden. When the
  request fails in transport, \<^verbatim>\<open>currentInvitation\<close> is still the same invitation, and
  the session fields and the document are as before the call.
\<close>

theorem respond_success_clears_failure_keeps:
  assumes "currentInvitation (app s) = Some invitation" and "currentUser (app s) = Some u"
  shows "respondToInvitation accept s =
      Suspended (fetch (''/activities/invitations/'' @ invitation_id invitation @ ''/respond'')
        ''POST'' (Url_encoded (''user_id='' @ user_id u @ ''&accept='' @
           (if accept then ''true'' else ''false''))) s) \<and>
    (ok r \<longrightarrow>
       currentInvitation (app (resume (respondToInvitation accept s)
          (respondToInvitation_settled (Fulfilled r)))) = None \<and>
       invitation_modal_hidden (doc (resume (respondToInvitation accept s)
          (respondToInvitation_settled (Fulfilled r))))) \<and>
    currentInvitation (app (resume (respondToInvitation accept s)
       (respondToInvitation_settled (Rejected :: unit settlement)))) = Some invitation \<and>
    app (resume (respondToInvitation accept s)
       (respondToInvitation_settled (Rejected :: unit settlement))) = app s \<and>
    doc (resume (respondToInvitation accept s)
       (respondToInvitation_settled (Rejected :: unit settlement))) = doc s"
  using assms
  by (simp add: respondToInvitation_def respondToInvitation_settled_def fetch_def
      console_error_def)

theorem respond_success_clears_failure_keeps_witness:
  "currentInvitation (app invited_page) = Some chess_invitation \<and>
   currentUser (app invited_page) = Some alice \<and> ok accepted_response \<and>
   currentInvitation (app (resume (respondToInvitation True invited_page)
      (respondToInvitation_settled (Fulfilled accepted_response)))) = None \<and>
   currentInvitation (app (resume (respondToInvitation True invited_page)
      (respondToInvitation_settled (Rejected :: unit settlement)))) = Some chess_invitation"
proof -
  have pending: "currentInvitation (app invited_page) = Some chess_invitation"
    and user: "currentUser (app invited_page) = Some alice"
    by (simp_all add: invited_page_app)
  have success: "ok accepted_response"
    by (simp add: accepted_response_def)
  show ?thesis
    using respond_success_clears_failure_keeps [OF pending user, of True accepted_response]
      pending user success
    by blast
qed

text \<open>
  C10: \<^verbatim>\<open>respondToInvitation(accept)\<close> with a pending invitation, in a session with a
  current user, when the response arrives with a status that is not successful: nothing
  happens after the request. \<^verbatim>\<open>currentInvitation\<close> is still the invitation, the document
  (the invitation modal with it) is as before, no prompt is shown and nothing is written to
  the console. The session fields are those left by a transport failure.
\<close>

theorem respond_non_ok_keeps_invitation:
  assumes "currentInvitation (app s) = Some invitation" and "currentUser (app s) = Some u"
    and "\<not> ok r"
  shows "resume (respondToInvitation accept s) (respondToInvitation_settled (Fulfilled r)) =
      fetch (''/activities/invitations/'' @ invitation_id invitation @ ''/respond'')
        ''POST'' (Url_encoded (''user_id='' @ user_id u @ ''&accept='' @
           (if accept then ''true'' else ''false''))) s \<and>
    currentInvitation (app (resume (respondToInvitation accept s)
       (respondToInvitation_settled (Fulfilled r)))) = Some invitation \<and>
    doc (resume (respondToInvitation accept s)
       (respondToInvitation_settled (Fulfilled r))) = doc s \<and>
    alerts (resume (respondToInvitation accept s)
       (respondToInvitation_settled (Fulfilled r))) = alerts s \<and>
    console (resume (respondToInvitation accept s)
       (respondToInvitation_settled (Fulfilled r))) = console s \<and>
    app (resume (respondToInvitation accept s)
       (respondToInvitation_settled (Rejected :: unit settlement))) =
    app (resume (respondToInvitation accept s)
       (respondToInvitation_settled (Fulfilled r)))"
  using assms
  by (simp add: respondToInvitation_def respondToInvitation_settled_def fetch_def
      console_error_def)

theorem respond_non_ok_keeps_invitation_witness:
  "currentInvitation (app invited_page) = Some chess_invitation \<and>
   currentUser (app invited_page) = Some alice \<and> \<not> ok refused_response \<and>
   currentInvitation (app (resume (respondToInvitation False invited_page)
      (respondToInvitation_settled (Fulfilled refused_response)))) = Some chess_invitation \<and>
   doc (resume (respondToInvitation False invited_page)
      (respondToInvitation_settled (Fulfilled refused_response))) = doc invited_page \<and>
   alerts (resume (respondToInvitation False invited_page)
      (respondToInvitation_settled (Fulfilled refused_response))) = alerts invited_page"
proof -
  have pending: "currentInvitation (app invited_page) = Some chess_invitation"
    and user: "currentUser (app invited_page) = Some alice"
    by (simp_all add: invited_page_app)
  have refused: "\<not> ok refused_response"
    by (simp add: refused_response_def)
  show ?thesis
    using respond_non_ok_keeps_invitation [OF pending user refused, of False]
      pending user refused
    by blast
qed

section \<open>Proposing an invitation\<close>

text \<open>
  C6: \<^verbatim>\<open>sendActivityInvitation\<close> with an activity selected and a target set, in a session
  with a current user, posts a body that ends with the \<^verbatim>\<open>message\<close> field, also when the
  trimmed text is empty (the field is then \<^verbatim>\<open>message=\<close>). On a successful response the
  draft is cleared (\<^verbatim>\<open>selectedActivity\<close> and \<^verbatim>\<open>invitationTargetUser\<close> are \<^verbatim>\<open>null\<close>). On a
  response that is not successful the session fields and the document are as before, and
  when its body carries a \<^verbatim>\<open>detail\<close> the prompt shows that detail; on a transport failure
  the draft is kept as well.
\<close>

theorem propose_request_and_draft:
  assumes "selectedActivity (app s) = Some a" and "a \<noteq> []"
    and "invitationTargetUser (app s) = Some target" and "currentUser (app s) = Some u"
  shows "sendActivityInvitation s =
      Suspended (fetch ''/activities/invite'' ''POST''
        (Url_encoded (''from_user_id='' @ user_id u @ ''&to_user_id='' @ user_id target @
           ''&activity_name='' @ a @ ''&message='' @
           encodeURIComponent (trim (invitation_message_input (doc s))))) s) \<and>
    (trim (invitation_message_input (doc s)) = [] \<longrightarrow>
       requests (page_of (sendActivityInvitation s)) = requests s @
         [\<lparr>url = ''/activities/invite'', http_method = ''POST'',
           body = Url_encoded (''from_user_id='' @ user_id u @ ''&to_user_id='' @
             user_id target @ ''&activity_name='' @ a @ ''&message='')\<rparr>]) \<and>
    (ok r \<longrightarrow>
       selectedActivity (app (resume (sendActivityInvitation s)
          (sendActivityInvitation_settled (Fulfilled r)))) = None \<and>
       invitationTargetUser (app (resume (sendActivityInvitation s)
          (sendActivityInvitation_settled (Fulfilled r)))) = None \<and>
       alerts (resume (sendActivityInvitation s)
          (sendActivityInvitation_settled (Fulfilled r))) = alerts s @ [''Invitation sent!'']) \<and>
    (\<not> ok r' \<longrightarrow>
       app (resume (sendActivityInvitation s)
          (sendActivityInvitation_settled (Fulfilled r'))) = app s \<and>
       doc (resume (sendActivityInvitation s)
          (sendActivityInvitation_settled (Fulfilled r'))) = doc s) \<and>
    (\<not> ok r' \<and> json_body r' = JSONText \<lparr>detail = Some d\<rparr> \<longrightarrow>
       alerts (resume (sendActivityInvitation s)
          (sendActivityInvitation_settled (Fulfilled r'))) =
         alerts s @ [''Failed to send invitation: '' @ d]) \<and>
    app (resume (sendActivityInvitation s) (sendActivityInvitation_settled Rejected)) = app s \<and>
    doc (resume (sendActivityInvitation s) (sendActivityInvitation_settled Rejected)) = doc s"
  using assms
  by (simp add: sendActivityInvitation_def sendActivityInvitation_settled_def fetch_def
      alert_def console_error_def closeActivitySelectionModal_def invite_body_def Let_def
      trim_Nil encodeURIComponent_Nil split: sum.split json_text.split)

theorem propose_request_and_draft_witness:
  "selectedActivity (app drafting_page) = Some ''chess'' \<and> ''chess'' \<noteq> [] \<and>
   invitationTargetUser (app drafting_page) = Some bob \<and>
   currentUser (app drafting_page) = Some alice \<and>
   trim (invitation_message_input (doc drafting_page)) = [] \<and>
   ok invite_ok \<and> \<not> ok invite_refused \<and>
   json_body invite_refused = JSONText \<lparr>detail = Some ''User not found''\<rparr> \<and>
   requests (page_of (sendActivityInvitation drafting_page)) = requests drafting_page @
     [\<lparr>url = ''/activities/invite'', http_method = ''POST'',
       body = Url_encoded (''from_user_id='' @ user_id alice @ ''&to_user_id='' @
         user_id bob @ ''&activity_name='' @ ''chess'' @ ''&message='')\<rparr>] \<and>
   selectedActivity (app (resume (sendActivityInvitation drafting_page)
      (sendActivityInvitation_settled (Fulfilled invite_ok)))) = None \<and>
   invitationTargetUser (app (resume (sendActivityInvitation drafting_page)
      (sendActivityInvitation_settled (Fulfilled invite_ok)))) = None \<and>
   app (resume (sendActivityInvitation drafting_page)
      (sendActivityInvitation_settled (Fulfilled invite_refused))) = app drafting_page \<and>
   alerts (resume (sendActivityInvitation drafting_page)
      (sendActivityInvitation_settled (Fulfilled invite_refused))) =
     alerts drafting_page @ [''Failed to send invitation: '' @ ''User not found'']"
proof -
  have act: "selectedActivity (app drafting_page) = Some ''chess''"
    and tgt: "invitationTargetUser (app drafting_page) = Some bob"
    and usr: "currentUser (app drafting_page) = Some alice"
    by (simp_all add: drafting_page_app)
  have named: "''chess'' \<noteq> []"
    by simp
  have empty: "trim (invitation_message_input (doc drafting_page)) = []"
    by (simp add: drafting_page_app trim_Nil)
  have good: "ok invite_ok"
    by (simp add: invite_ok_def)
  have bad: "\<not> ok invite_refused"
    and why: "json_body invite_refused = JSONText \<lparr>detail = Some ''User not found''\<rparr>"
    by (simp_all add: invite_refused_def)
  show ?thesis
    using propose_request_and_draft [OF act named tgt usr,
        of invite_ok invite_refused "''User not found''"]
      act named tgt usr empty good bad why
    by blast
qed

section \<open>Actions whose precondition is unmet\<close>

text \<open>
  C7: an action whose precondition is unmet issues no request and changes no session
  field. Sending to a room or in the private chat with a text that is empty after trimming,
  and responding with no pending invitation, return with the page as it was. Proposing with
  no activity selected shows the prompt \<^verbatim>\<open>Please select an activity\<close> and changes nothing
  else: the requests, the session fields and the document are as before.
\<close>

theorem unmet_precondition_no_request:
  "(trim (input_value chatSide (doc s)) = [] \<longrightarrow> sendPublicMessage chatSide s = Completed s) \<and>
   (trim (private_message_input (doc s)) = [] \<longrightarrow> sendPrivateMessage s = Completed s) \<and>
   (\<not> truthy (selectedActivity (app s)) \<longrightarrow>
      sendActivityInvitation s =
        Completed (s\<lparr>alerts := alerts s @ [''Please select an activity'']\<rparr>) \<and>
      requests (page_of (sendActivityInvitation s)) = requests s \<and>
      app (page_of (sendActivityInvitation s)) = app s \<and>
      doc (page_of (sendActivityInvitation s)) = doc s) \<and>
   (currentInvitation (app s) = None \<longrightarrow> respondToInvitation accept s = Completed s)"
  by (simp add: sendPublicMessage_def sendPrivateMessage_def sendActivityInvitation_def
      respondToInvitation_def alert_def Let_def split: option.split)

theorem unmet_precondition_no_request_witness:
  "trim (input_value Chatwithme (doc blank_page)) = [] \<and>
   trim (private_message_input (doc blank_page)) = [] \<and>
   \<not> truthy (selectedActivity (app blank_page)) \<and>
   currentInvitation (app blank_page) = None \<and>
   sendPublicMessage Chatwithme blank_page = Completed blank_page \<and>
   sendPrivateMessage blank_page = Completed blank_page \<and>
   requests (page_of (sendActivityInvitation blank_page)) = requests blank_page \<and>
   app (page_of (sendActivityInvitation blank_page)) = app blank_page \<and>
   respondToInvitation True blank_page = Completed blank_page"
  using unmet_precondition_no_request [of Chatwithme blank_page True] blank_page_facts
  by simp

section \<open>The stored identity\<close>

text \<open>
  C8: at startup, when \<^verbatim>\<open>localStorage\<close> holds the serialised user under the key
  \<^verbatim>\<open>chatwithme_user\<close>, \<^verbatim>\<open>init\<close> sets \<^verbatim>\<open>currentUser\<close> to that user and shows the main
  interface (the login modal hidden); when the key is absent, \<^verbatim>\<open>init\<close> shows the login
  modal (the main interface hidden) and leaves the session fields alone. When the login
  request succeeds with a user, that user is stored under the same key, becomes
  \<^verbatim>\<open>currentUser\<close>, and the main interface is shown.
\<close>

theorem stored_identity_gates_startup:
  "(localStorage s ''chatwithme_user'' = Some (JSONText u) \<longrightarrow>
      (\<exists>s'. init s = Return s' \<and> currentUser (app s') = Some u \<and>
            \<not> main_interface_hidden (doc s') \<and> login_modal_hidden (doc s') \<and>
            current_user_name (doc s') = username u)) \<and>
   (localStorage s0 ''chatwithme_user'' = None \<longrightarrow>
      (\<exists>s'. init s0 = Return s' \<and> \<not> login_modal_hidden (doc s') \<and>
            main_interface_hidden (doc s') \<and> app s' = app s0)) \<and>
   (ok r \<and> json_body r = JSONText result \<and> result_user result = Some v \<longrightarrow>
      localStorage (handleLogin_settled (Fulfilled r) s1) ''chatwithme_user'' =
        Some (JSONText v) \<and>
      currentUser (app (handleLogin_settled (Fulfilled r) s1)) = Some v \<and>
      \<not> main_interface_hidden (doc (handleLogin_settled (Fulfilled r) s1)) \<and>
      login_modal_hidden (doc (handleLogin_settled (Fulfilled r) s1)))"
  by (simp add: init_def handleLogin_settled_def showMainInterface_def connectWebSocket_def
      loadContacts_def setupEventListeners_def showLoginModal_def fetch_def Let_def)

theorem stored_identity_gates_startup_witness:
  "localStorage (fresh_page\<lparr>localStorage := [''chatwithme_user'' \<mapsto> JSONText alice]\<rparr>)
      ''chatwithme_user'' = Some (JSONText alice) \<and>
   localStorage fresh_page ''chatwithme_user'' = None \<and>
   ok login_ok \<and>
   json_body login_ok =
     JSONText \<lparr>result_user = Some alice, result_detail = None, result_message = None\<rparr> \<and>
   result_user \<lparr>result_user = Some alice, result_detail = None, result_message = None\<rparr> =
     Some alice \<and>
   (\<exists>s'. init (fresh_page\<lparr>localStorage := [''chatwithme_user'' \<mapsto> JSONText alice]\<rparr>) =
            Return s' \<and> currentUser (app s') = Some alice \<and>
          \<not> main_interface_hidden (doc s') \<and> login_modal_hidden (doc s') \<and>
          current_user_name (doc s') = username alice) \<and>
   (\<exists>s'. init fresh_page = Return s' \<and> \<not> login_modal_hidden (doc s') \<and>
          main_interface_hidden (doc s') \<and> app s' = app fresh_page) \<and>
   localStorage (handleLogin_settled (Fulfilled login_ok) fresh_page) ''chatwithme_user'' =
     Some (JSONText alice)"
proof -
  have stored:
    "localStorage (fresh_page\<lparr>localStorage := [''chatwithme_user'' \<mapsto> JSONText alice]\<rparr>)
       ''chatwithme_user'' = Some (JSONText alice)"
    by simp
  have absent: "localStorage fresh_page ''chatwithme_user'' = None"
    by (simp add: fresh_page_def)
  have good: "ok login_ok"
    and carried: "json_body login_ok =
      JSONText \<lparr>result_user = Some alice, result_detail = None, result_message = None\<rparr>"
    by (simp_all add: login_ok_def)
  have named: "result_user
      \<lparr>result_user = Some alice, result_detail = None, result_message = None\<rparr> = Some alice"
    by simp
  show ?thesis
    using stored_identity_gates_startup
      [of "fresh_page\<lparr>localStorage := [''chatwithme_user'' \<mapsto> JSONText alice]\<rparr>" alice
          fresh_page login_ok
          "\<lparr>result_user = Some alice, result_detail = None, result_message = None\<rparr>"
          alice fresh_page]
      stored absent good carried named
    by blast
qed

section \<open>Reconnection\<close>

lemma closes_keeps:
  assumes "currentUser (app s) = Some u"
  shows "\<exists>sn. closes n s = Return sn \<and> currentUser (app sn) = Some u \<and>
     location_protocol sn = location_protocol s \<and> location_host sn = location_host s \<and>
     timers sn = timers s \<and> alerts sn = alerts s \<and> doc sn = doc s \<and>
     sockets sn = sockets s @ replicate n (wsUrl s u)"
proof (induction n)
  case 0
  show ?case using assms by simp
next
  case (Suc n)
  then obtain sn where sn: "closes n s = Return sn" "currentUser (app sn) = Some u"
     "location_protocol sn = location_protocol s" "location_host sn = location_host s"
     "timers sn = timers s" "alerts sn = alerts s" "doc sn = doc s"
     "sockets sn = sockets s @ replicate n (wsUrl s u)"
    by blast
  show ?case
    using sn
    by (simp add: fire_def onclose_def console_log_def run_timer_def connectWebSocket_def
        wsUrl_def replicate_append_same)
qed

text \<open>
  C9: in a session with a current user, after any number \<open>n\<close> of closes, each followed by
  the firing of the timer it set, the next close sets exactly one more timer, with the
  delay 3000 and the reconnect callback; when that timer fires, one socket is constructed,
  to the URL of the first connection, and the timer is gone. The delay is 3000 for every
  \<open>n\<close>, nothing bounds \<open>n\<close>, and no prompt is shown and the document is not touched.
\<close>

theorem close_schedules_one_reconnect:
  assumes "currentUser (app s) = Some u"
  shows "\<exists>sn sn'. closes n s = Return sn \<and>
     sockets sn = sockets s @ replicate n (wsUrl s u) \<and>
     timers (onclose sn) = timers sn @ [(3000, Reconnect)] \<and>
     alerts (onclose sn) = alerts s \<and> doc (onclose sn) = doc s \<and>
     closes (Suc n) s = Return sn' \<and>
     sockets sn' = sockets sn @ [wsUrl s u] \<and>
     websocket (app sn') = Some (wsUrl s u) \<and>
     timers sn' = timers sn \<and> alerts sn' = alerts s \<and> doc sn' = doc s"
proof -
  from closes_keeps [OF assms, of n] obtain sn where sn: "closes n s = Return sn"
     "currentUser (app sn) = Some u"
     "location_protocol sn = location_protocol s" "location_host sn = location_host s"
     "timers sn = timers s" "alerts sn = alerts s" "doc sn = doc s"
     "sockets sn = sockets s @ replicate n (wsUrl s u)"
    by blast
  show ?thesis
    using sn
    by (simp add: fire_def onclose_def console_log_def run_timer_def connectWebSocket_def
        wsUrl_def)
qed

theorem close_schedules_one_reconnect_witness:
  "currentUser (app alice_page) = Some alice \<and>
   (\<exists>sn sn'. closes 2 alice_page = Return sn \<and>
     sockets sn = sockets alice_page @ replicate 2 (wsUrl alice_page alice) \<and>
     timers (onclose sn) = timers sn @ [(3000, Reconnect)] \<and>
     closes (Suc 2) alice_page = Return sn' \<and>
     sockets sn' = sockets sn @ [wsUrl alice_page alice] \<and>
     alerts sn' = alerts alice_page)"
  using close_schedules_one_reconnect [OF alice_page_user, of 2] alice_page_user
  by blast

end
